theory Spec2Isabelle
  imports Main "HOL-Library.Sublist"
begin

section \<open>Data model\<close>

text \<open>
  A change record is what the store hands to a subscriber and what travels in a sync
  message: \<open>{type, payload}\<close>. Payloads and store states are JavaScript values; the
  development is generic in their type \<open>'v\<close>.
\<close>

record 'v change =
  type :: string
  payload :: 'v

text \<open>
  The envelopes \<open>{type, data}\<close> of the channel. \<open>OtherType\<close> is an envelope whose type
  is none of the three protocol types, \<open>NoType\<close> one whose type is absent or falsy.
\<close>

datatype 'v message =
    SyncState 'v
  | SyncMutation "'v change"
  | SyncAction "'v change"
  | OtherType string
  | NoType

text \<open>
  The two shapes in which the source calls \<open>store.dispatch\<close>: with the record object as
  the single argument, or with type and payload as two arguments.
\<close>

datatype 'v dispatch_call =
    DispatchRecord "'v change"
  | DispatchTypePayload string 'v

record settings =
  connectionName :: string
  syncActions :: bool
  ignoredMutations :: "string list"
  ignoredActions :: "string list"
  persistentStates :: "string list"

text \<open>
  What the JavaScript host and the external collaborators compute. None of this is code of
  the two scripts, so each is a parameter:
  \<^item> \<open>stringify\<close> is \<open>JSON.stringify\<close> (\<open>None\<close> is its result \<open>undefined\<close>);
  \<^item> \<open>mutate\<close> is the store's mutation handlers: type, payload and state to the new state;
  \<^item> \<open>subscribeActionAvailable\<close> says whether the store has \<open>subscribeAction\<close>, and
    \<open>subscribedAction\<close> is the action object that the store hands to the subscribers of
    a \<open>dispatch\<close> call;
  \<^item> \<open>isEvent\<close> is \<open>instanceof Event\<close>, \<open>null\<close> is the value \<open>null\<close>;
  \<^item> \<open>filterObject\<close> is the helper of \<open>utils\<close>, which is not part of the two scripts.
\<close>

record 'v host =
  stringify :: "'v \<Rightarrow> string option"
  mutate :: "string \<Rightarrow> 'v \<Rightarrow> 'v \<Rightarrow> 'v"
  subscribeActionAvailable :: bool
  subscribedAction :: "'v dispatch_call \<Rightarrow> 'v change"
  isEvent :: "'v \<Rightarrow> bool"
  null :: 'v
  filterObject :: "'v \<Rightarrow> string list \<Rightarrow> 'v"

datatype error = PostMessageError

text \<open>
  A transport port. \<open>name\<close> is \<open>None\<close> when the port's name is not a string,
  \<open>posted\<close> are the envelopes that \<open>postMessage\<close> has put on the wire, and a
  \<open>broken\<close> port is one whose \<open>postMessage\<close> throws (a disconnected port, say).
\<close>

record 'v port =
  name :: "string option"
  posted :: "'v message list"
  broken :: bool

definition postMessage :: "'v message \<Rightarrow> 'v port \<Rightarrow> error + 'v port" where
  "postMessage msg c =
     (if broken c then Inl PostMessageError else Inr (c\<lparr>posted := posted c @ [msg]\<rparr>))"

text \<open>
  The store, as far as the scripts observe it: its state and the calls of \<open>commit\<close> and
  \<open>dispatch\<close> made on it.
\<close>

record 'v store =
  state :: 'v
  committed :: "'v change list"
  dispatched :: "'v dispatch_call list"

text \<open>The two echo-tracking lists, which a peer and every hub-side connection carry.\<close>

record 'v tracking =
  receivedMutations :: "'v change list"
  receivedActions :: "'v change list"

section \<open>Array helpers\<close>

text \<open>\<open>Array.prototype.findIndex\<close>: the first index whose element satisfies the test; \<open>None\<close> is \<open>-1\<close>.\<close>

fun findIndex :: "('a \<Rightarrow> bool) \<Rightarrow> 'a list \<Rightarrow> nat option" where
  "findIndex P [] = None"
| "findIndex P (x # xs) = (if P x then Some 0 else map_option Suc (findIndex P xs))"

text \<open>\<open>xs.splice(j, 1)\<close>.\<close>

definition splice1 :: "nat \<Rightarrow> 'a list \<Rightarrow> 'a list" where
  "splice1 j xs = take j xs @ drop (Suc j) xs"

text \<open>
  The hub's loop \<open>for (let j = xs.length - 1; j >= 0; j--) if (P(xs[j])) { ...; break; }\<close>,
  with \<open>n = j + 1\<close> the number of indices still to visit: the index at which it breaks.
\<close>

fun scanBack :: "('a \<Rightarrow> bool) \<Rightarrow> 'a list \<Rightarrow> nat \<Rightarrow> nat option" where
  "scanBack P xs 0 = None"
| "scanBack P xs (Suc j) = (if P (xs ! j) then Some j else scanBack P xs j)"

text \<open>
  The comparison of a tracked record \<open>r\<close> with a hooked change \<open>m\<close> by type and serialised
  payload, and the comparison by type alone.
\<close>

definition sameTypeAndPayload :: "'v host \<Rightarrow> 'v change \<Rightarrow> 'v change \<Rightarrow> bool" where
  "sameTypeAndPayload H m r \<longleftrightarrow>
     type r = type m \<and> stringify H (payload r) = stringify H (payload m)"

definition sameType :: "'v change \<Rightarrow> 'v change \<Rightarrow> bool" where
  "sameType a r \<longleftrightarrow> type r = type a"

text \<open>
  The test \<open>list.length > 0 && list.includes(t)\<close> that both scripts make on
  \<open>ignoredMutations\<close> and \<open>ignoredActions\<close>.
\<close>

definition listed :: "string list \<Rightarrow> string \<Rightarrow> bool" where
  "listed xs t \<longleftrightarrow> xs \<noteq> [] \<and> t \<in> set xs"

text \<open>
  Modelled from the spec: the store module that registers the reserved mutation is not
  among the two scripts. \<open>commit\<close> applies the mutation to the state, where the reserved
  type \<open>vweReplaceState\<close> overwrites the whole state with the payload, and records the call.
\<close>

definition store_commit :: "'v host \<Rightarrow> string \<Rightarrow> 'v \<Rightarrow> 'v store \<Rightarrow> 'v store" where
  "store_commit H t v s =
     s\<lparr>state := (if t = ''vweReplaceState'' then v else mutate H t v (state s)),
       committed := committed s @ [\<lparr>type = t, payload = v\<rparr>]\<rparr>"

definition store_dispatch :: "'v dispatch_call \<Rightarrow> 'v store \<Rightarrow> 'v store" where
  "store_dispatch d s = s\<lparr>dispatched := dispatched s @ [d]\<rparr>"

section \<open>The content script (peer)\<close>

record 'v peer = "'v tracking" +
  initialized :: bool
  pendingMutations :: "'v change list"
  pendingActions :: "'v change list"
  connection :: "'v port"
  store :: "'v store"

text \<open>
  A call either returns the peer's new state or throws; the peer object keeps the fields
  it had at the throw.
\<close>

type_synonym 'v outcome = "(error \<times> 'v peer) + 'v peer"

definition cs_sendMutation :: "'v change \<Rightarrow> 'v peer \<Rightarrow> 'v outcome" where
  "cs_sendMutation m p =
     (case postMessage (SyncMutation m) (connection p) of
        Inl e \<Rightarrow> Inl (e, p)
      | Inr c \<Rightarrow> Inr (p\<lparr>connection := c\<rparr>))"

definition cs_sendAction :: "'v change \<Rightarrow> 'v peer \<Rightarrow> 'v outcome" where
  "cs_sendAction a p =
     (case postMessage (SyncAction a) (connection p) of
        Inl e \<Rightarrow> Inl (e, p)
      | Inr c \<Rightarrow> Inr (p\<lparr>connection := c\<rparr>))"

definition cs_hookMutation :: "'v host \<Rightarrow> settings \<Rightarrow> 'v change \<Rightarrow> 'v peer \<Rightarrow> 'v outcome" where
  "cs_hookMutation H cfg m p =
     (if type m = ''vweReplaceState'' then Inr p
      else if listed (ignoredMutations cfg) (type m) then Inr p
      else if \<not> initialized p then Inr (p\<lparr>pendingMutations := pendingMutations p @ [m]\<rparr>)
      else if receivedMutations p = [] then cs_sendMutation m p
      else (case findIndex (sameTypeAndPayload H m) (receivedMutations p) of
              Some i \<Rightarrow> Inr (p\<lparr>receivedMutations := splice1 i (receivedMutations p)\<rparr>)
            | None \<Rightarrow> cs_sendMutation m p))"

definition cs_hookAction :: "'v host \<Rightarrow> settings \<Rightarrow> 'v change \<Rightarrow> 'v peer \<Rightarrow> 'v outcome" where
  "cs_hookAction H cfg a p =
     (if listed (ignoredActions cfg) (type a) then Inr p
      else if \<not> initialized p then Inr (p\<lparr>pendingActions := pendingActions p @ [a]\<rparr>)
      else if receivedActions p = [] then cs_sendAction a p
      else (case findIndex (sameTypeAndPayload H a) (receivedActions p) of
              Some i \<Rightarrow> Inr (p\<lparr>receivedActions := splice1 i (receivedActions p)\<rparr>)
            | None \<Rightarrow> cs_sendAction a p))"

text \<open>
  \<open>store.commit(type, payload)\<close> at the peer: the store applies the mutation and, before
  \<open>commit\<close> returns, calls the subscriber installed by the constructor, which is
  \<open>hookMutation\<close>.
\<close>

definition cs_commit :: "'v host \<Rightarrow> settings \<Rightarrow> string \<Rightarrow> 'v \<Rightarrow> 'v peer \<Rightarrow> 'v outcome" where
  "cs_commit H cfg t v p =
     cs_hookMutation H cfg \<lparr>type = t, payload = v\<rparr> (p\<lparr>store := store_commit H t v (store p)\<rparr>)"

text \<open>
  \<open>store.dispatch(...)\<close> at the peer. The constructor subscribes to actions only when
  \<open>syncActions\<close> is set and the store has \<open>subscribeAction\<close>; its subscriber replaces an
  \<open>Event\<close> payload by \<open>null\<close> and calls \<open>hookAction\<close>.
\<close>

definition cs_dispatch :: "'v host \<Rightarrow> settings \<Rightarrow> 'v dispatch_call \<Rightarrow> 'v peer \<Rightarrow> 'v outcome" where
  "cs_dispatch H cfg d p =
     (let p1 = p\<lparr>store := store_dispatch d (store p)\<rparr>;
          a = subscribedAction H d
      in if syncActions cfg \<and> subscribeActionAvailable H
         then cs_hookAction H cfg (if isEvent H (payload a) then a\<lparr>payload := null H\<rparr> else a) p1
         else Inr p1)"

text \<open>
  The two draining loops \<open>while (queue.length > 0) { x = queue.shift(); ... }\<close>. A hook
  that runs on an uninitialised peer puts the change back on the queue, so the loop need
  not end: \<open>None\<close> is the run that never returns.
\<close>

partial_function (option) processPendingMutations ::
  "'v host \<Rightarrow> settings \<Rightarrow> 'v peer \<Rightarrow> 'v outcome option" where
  "processPendingMutations H cfg p =
     (case pendingMutations p of
        [] \<Rightarrow> Some (Inr p)
      | m # rest \<Rightarrow>
          (case cs_commit H cfg (type m) (payload m) (p\<lparr>pendingMutations := rest\<rparr>) of
             Inl e \<Rightarrow> Some (Inl e)
           | Inr p' \<Rightarrow> processPendingMutations H cfg p'))"

partial_function (option) processPendingActions ::
  "'v host \<Rightarrow> settings \<Rightarrow> 'v peer \<Rightarrow> 'v outcome option" where
  "processPendingActions H cfg p =
     (case pendingActions p of
        [] \<Rightarrow> Some (Inr p)
      | a # rest \<Rightarrow>
          (case cs_dispatch H cfg (DispatchTypePayload (type a) (payload a))
                  (p\<lparr>pendingActions := rest\<rparr>) of
             Inl e \<Rightarrow> Some (Inl e)
           | Inr p' \<Rightarrow> processPendingActions H cfg p'))"

definition cs_onMessage :: "'v host \<Rightarrow> settings \<Rightarrow> 'v message \<Rightarrow> 'v peer \<Rightarrow> 'v outcome option" where
  "cs_onMessage H cfg msg p =
     (case msg of
        NoType \<Rightarrow> Some (Inr p)
      | SyncState d \<Rightarrow>
          (case cs_commit H cfg ''vweReplaceState'' d p of
             Inl e \<Rightarrow> Some (Inl e)
           | Inr p1 \<Rightarrow> processPendingMutations H cfg (p1\<lparr>initialized := True\<rparr>))
      | SyncMutation r \<Rightarrow>
          (if \<not> initialized p then Some (Inr p)
           else Some (cs_commit H cfg (type r) (payload r)
                        (p\<lparr>receivedMutations := receivedMutations p @ [r]\<rparr>)))
      | SyncAction r \<Rightarrow>
          (if \<not> initialized p then Some (Inr p)
           else Some (cs_dispatch H cfg (DispatchRecord r)
                        (p\<lparr>receivedActions := receivedActions p @ [r]\<rparr>)))
      | OtherType t \<Rightarrow> Some (Inr p))"

section \<open>The background script (hub)\<close>

text \<open>
  A connection of the registry: the port, with the two tracking lists that
  \<open>onConnection\<close> attaches to it.
\<close>

record 'v conn = "'v tracking" +
  port :: "'v port"

text \<open>
  The hub: the registry, its store, and the objects handed to
  \<open>browser.savePersistentStates\<close> so far (the field \<open>store\<close> of the source is
  \<open>bg_store\<close> here).
\<close>

record 'v hub =
  connections :: "'v conn list"
  bg_store :: "'v store"
  savedStates :: "'v list"

text \<open>
  The three sending helpers wrap \<open>postMessage\<close> in \<open>try\<close>/\<open>catch\<close>; the handler only
  logs.
\<close>

definition bg_syncCurrentState :: "'v store \<Rightarrow> 'v conn \<Rightarrow> 'v conn" where
  "bg_syncCurrentState s c =
     (case postMessage (SyncState (state s)) (port c) of
        Inl e \<Rightarrow> c
      | Inr c' \<Rightarrow> c\<lparr>port := c'\<rparr>)"

definition bg_sendMutation :: "'v conn \<Rightarrow> 'v change \<Rightarrow> 'v conn" where
  "bg_sendMutation c m =
     (case postMessage (SyncMutation m) (port c) of
        Inl e \<Rightarrow> c
      | Inr c' \<Rightarrow> c\<lparr>port := c'\<rparr>)"

definition bg_sendAction :: "'v conn \<Rightarrow> 'v change \<Rightarrow> 'v conn" where
  "bg_sendAction c a =
     (case postMessage (SyncAction a) (port c) of
        Inl e \<Rightarrow> c
      | Inr c' \<Rightarrow> c\<lparr>port := c'\<rparr>)"

text \<open>
  The test \<open>typeof connection.name !== 'string' || !connection.name.includes('vuex-webextensions')\<close>,
  negated: the connection takes part in the relay.
\<close>

definition protocolName :: "string option \<Rightarrow> bool" where
  "protocolName n = (case n of None \<Rightarrow> False | Some s \<Rightarrow> sublist ''vuex-webextensions'' s)"

text \<open>The body of \<open>connections.forEach\<close> in the mutation subscriber, for one connection.\<close>

definition relayMutation :: "'v host \<Rightarrow> 'v change \<Rightarrow> 'v conn \<Rightarrow> 'v conn" where
  "relayMutation H m c =
     (if \<not> protocolName (name (port c)) then c
      else (case scanBack (sameTypeAndPayload H m) (receivedMutations c)
                   (length (receivedMutations c)) of
              Some j \<Rightarrow> c\<lparr>receivedMutations := splice1 j (receivedMutations c)\<rparr>
            | None \<Rightarrow> bg_sendMutation c m))"

text \<open>The body of \<open>connections.forEach\<close> in the action subscriber, for one connection.\<close>

definition relayAction :: "'v change \<Rightarrow> 'v conn \<Rightarrow> 'v conn" where
  "relayAction a c =
     (if \<not> protocolName (name (port c)) then c
      else (case scanBack (sameType a) (receivedActions c) (length (receivedActions c)) of
              Some j \<Rightarrow> c\<lparr>receivedActions := splice1 j (receivedActions c)\<rparr>
            | None \<Rightarrow> bg_sendAction c a))"

text \<open>The subscriber of \<open>store.subscribe\<close> installed by the constructor.\<close>

definition bg_hookMutation :: "'v host \<Rightarrow> settings \<Rightarrow> 'v change \<Rightarrow> 'v hub \<Rightarrow> 'v hub" where
  "bg_hookMutation H cfg m h =
     (if listed (ignoredMutations cfg) (type m) then h
      else
        (let h1 = h\<lparr>connections := map (relayMutation H m) (connections h)\<rparr>
         in h1\<lparr>savedStates := savedStates h1 @
                  [filterObject H (state (bg_store h1)) (persistentStates cfg)]\<rparr>))"

text \<open>The subscriber of \<open>store.subscribeAction\<close> installed by the constructor.\<close>

definition bg_hookAction :: "settings \<Rightarrow> 'v change \<Rightarrow> 'v hub \<Rightarrow> 'v hub" where
  "bg_hookAction cfg a h =
     (if listed (ignoredActions cfg) (type a) then h
      else h\<lparr>connections := map (relayAction a) (connections h)\<rparr>)"

text \<open>
  \<open>store.commit\<close> and \<open>store.dispatch\<close> at the hub: the store records the call and calls
  the subscriber before it returns; the action subscriber exists only when \<open>syncActions\<close>
  is set and the store has \<open>subscribeAction\<close>.
\<close>

definition bg_commit :: "'v host \<Rightarrow> settings \<Rightarrow> string \<Rightarrow> 'v \<Rightarrow> 'v hub \<Rightarrow> 'v hub" where
  "bg_commit H cfg t v h =
     bg_hookMutation H cfg \<lparr>type = t, payload = v\<rparr> (h\<lparr>bg_store := store_commit H t v (bg_store h)\<rparr>)"

definition bg_dispatch :: "'v host \<Rightarrow> settings \<Rightarrow> 'v dispatch_call \<Rightarrow> 'v hub \<Rightarrow> 'v hub" where
  "bg_dispatch H cfg d h =
     (let h1 = h\<lparr>bg_store := store_dispatch d (bg_store h)\<rparr>
      in if syncActions cfg \<and> subscribeActionAvailable H
         then bg_hookAction cfg (subscribedAction H d) h1
         else h1)"

text \<open>
  \<open>onConnection\<close>: the lists start empty, the connection joins the registry and is sent
  the current state.
\<close>

definition bg_onConnection :: "'v port \<Rightarrow> 'v hub \<Rightarrow> 'v hub" where
  "bg_onConnection c h =
     h\<lparr>connections := connections h @
          [bg_syncCurrentState (bg_store h) \<lparr>receivedMutations = [], receivedActions = [], port = c\<rparr>]\<rparr>"

text \<open>
  \<open>onMessage(connection, message)\<close>, where the connection is the one at index \<open>i\<close> of the
  registry. An index beyond the registry stands for a connection that has left it: its
  lists are no longer part of the hub's state, and the commit or dispatch still happens.
\<close>

definition pushReceivedMutation :: "nat \<Rightarrow> 'v change \<Rightarrow> 'v hub \<Rightarrow> 'v hub" where
  "pushReceivedMutation i r h =
     h\<lparr>connections := (connections h)
          [i := (connections h ! i)\<lparr>receivedMutations := receivedMutations (connections h ! i) @ [r]\<rparr>]\<rparr>"

definition pushReceivedAction :: "nat \<Rightarrow> 'v change \<Rightarrow> 'v hub \<Rightarrow> 'v hub" where
  "pushReceivedAction i r h =
     h\<lparr>connections := (connections h)
          [i := (connections h ! i)\<lparr>receivedActions := receivedActions (connections h ! i) @ [r]\<rparr>]\<rparr>"

definition bg_onMessage :: "'v host \<Rightarrow> settings \<Rightarrow> nat \<Rightarrow> 'v message \<Rightarrow> 'v hub \<Rightarrow> 'v hub" where
  "bg_onMessage H cfg i msg h =
     (case msg of
        SyncMutation r \<Rightarrow> bg_commit H cfg (type r) (payload r) (pushReceivedMutation i r h)
      | SyncAction r \<Rightarrow>
          bg_dispatch H cfg (DispatchTypePayload (type r) (payload r)) (pushReceivedAction i r h)
      | _ \<Rightarrow> h)"

text \<open>
  The name under which the content script's constructor connects:
  \<open>`${connectionName}_${scriptId}`\<close>, where \<open>scriptId\<close> is
  \<open>Math.random().toString(36).substr(2, 9)\<close>, a string of at most nine characters.
\<close>

definition cs_connectionName :: "settings \<Rightarrow> string \<Rightarrow> string" where
  "cs_connectionName cfg scriptId = connectionName cfg @ ''_'' @ scriptId"

text \<open>The peer's fields after a call, whether it returned or threw.\<close>

definition reached :: "'v outcome \<Rightarrow> 'v peer" where
  "reached out = (case out of Inl (e, p) \<Rightarrow> p | Inr p \<Rightarrow> p)"

section \<open>A concrete host\<close>

text \<open>
  A small universe of JavaScript values and one host over it, on which the general
  theorems are instantiated: a store with a counter that the mutation \<open>inc\<close> increments.
\<close>

datatype jsval =
    JUndefined
  | JNull
  | JEvent
  | JNum nat
  | JStr string
  | JObj "(string \<times> jsval) list"

fun decimal :: "nat \<Rightarrow> string" where
  "decimal n =
     (if n < 10 then [''0123456789'' ! n]
      else decimal (n div 10) @ [''0123456789'' ! (n mod 10)])"

text \<open>
  \<open>JSON.stringify\<close> on these values, for strings and keys without characters to escape:
  \<open>undefined\<close> has no serialisation, an event object serialises as an object without
  enumerable properties, and a member whose value is \<open>undefined\<close> is left out.
\<close>

fun json :: "jsval \<Rightarrow> string option"
  and members :: "(string \<times> jsval) list \<Rightarrow> string list" where
  "json JUndefined = None"
| "json JNull = Some ''null''"
| "json JEvent = Some ''{}''"
| "json (JNum n) = Some (decimal n)"
| "json (JStr s) = Some ([CHR 0x22] @ s @ [CHR 0x22])"
| "json (JObj kvs) = Some (''{'' @ concat (members kvs) @ ''}'')"
| "members [] = []"
| "members ((k, v) # kvs) =
     (case json v of
        None \<Rightarrow> members kvs
      | Some s \<Rightarrow>
          ([CHR 0x22] @ k @ [CHR 0x22] @ '':'' @ s @ (if members kvs = [] then [] else '','')) # members kvs)"

definition counterMutate :: "string \<Rightarrow> jsval \<Rightarrow> jsval \<Rightarrow> jsval" where
  "counterMutate t v s =
     (if t = ''inc''
      then (case s of JObj [(k, JNum n)] \<Rightarrow> JObj [(k, JNum (Suc n))] | _ \<Rightarrow> s)
      else s)"

text \<open>
  The store's unification of the arguments of \<open>dispatch\<close>: two arguments are type and
  payload; a single object is its own payload.
\<close>

fun unifyObjectStyle :: "jsval dispatch_call \<Rightarrow> jsval change" where
  "unifyObjectStyle (DispatchTypePayload t v) = \<lparr>type = t, payload = v\<rparr>"
| "unifyObjectStyle (DispatchRecord r) =
     \<lparr>type = type r, payload = JObj [(''type'', JStr (type r)), (''payload'', payload r)]\<rparr>"

text \<open>
  Modelled from the spec: \<open>filterObject\<close> of \<open>utils\<close> is not among the two scripts. It
  keeps the top-level keys of the state that are listed.
\<close>

definition keepKeys :: "jsval \<Rightarrow> string list \<Rightarrow> jsval" where
  "keepKeys s ks = (case s of JObj kvs \<Rightarrow> JObj (filter (\<lambda>kv. fst kv \<in> set ks) kvs) | _ \<Rightarrow> JObj [])"

definition counterHost :: "jsval host" where
  "counterHost =
     \<lparr>stringify = json, mutate = counterMutate, subscribeActionAvailable = True,
      subscribedAction = unifyObjectStyle, isEvent = (\<lambda>v. v = JEvent), null = JNull,
      filterObject = keepKeys\<rparr>"

definition plainSettings :: settings where
  "plainSettings =
     \<lparr>connectionName = ''vuex-webextensions'', syncActions = True, ignoredMutations = [],
      ignoredActions = [], persistentStates = []\<rparr>"

text \<open>The peer as its constructor leaves it, over a port that works.\<close>

definition freshPeer :: "jsval peer" where
  "freshPeer =
     \<lparr>receivedMutations = [], receivedActions = [], initialized = False,
      pendingMutations = [], pendingActions = [],
      connection = \<lparr>name = Some ''vuex-webextensions_k3j9x0q2a'', posted = [], broken = False\<rparr>,
      store = \<lparr>state = JObj [(''counter'', JNum 0)], committed = [], dispatched = []\<rparr>\<rparr>"

definition emptyConn :: "string \<Rightarrow> jsval conn" where
  "emptyConn n =
     \<lparr>receivedMutations = [], receivedActions = [],
      port = \<lparr>name = Some n, posted = [], broken = False\<rparr>\<rparr>"

text \<open>A hub with two registered peers.\<close>

definition twoPeerHub :: "jsval hub" where
  "twoPeerHub =
     \<lparr>connections = [emptyConn ''vuex-webextensions_aaaaaaaaa'', emptyConn ''vuex-webextensions_bbbbbbbbb''],
      bg_store = \<lparr>state = JObj [(''counter'', JNum 5)], committed = [], dispatched = []\<rparr>,
      savedStates = []\<rparr>"

declare decimal.simps [simp del]

section \<open>Facts about the array helpers\<close>





lemma scanBack_None:
  "n \<le> length xs \<Longrightarrow> scanBack P xs n = None \<longleftrightarrow> (\<forall>x\<in>set (take n xs). \<not> P x)"
proof (induction n)
  case 0
  then show ?case by simp
next
  case (Suc n)
  then show ?case by (auto simp: take_Suc_conv_app_nth)
qed



lemma splice1_last: "splice1 (length rs) (rs @ [r]) = rs"
  by (simp add: splice1_def)



section \<open>Facts about the content script\<close>

lemma change_eta: "\<lparr>type = type r, payload = payload r\<rparr> = (r :: 'v change)"
  by simp

lemma sameTypeAndPayload_refl: "sameTypeAndPayload H r r"
  by (simp add: sameTypeAndPayload_def)

lemma reached_simps [simp]: "reached (Inr p) = p" "reached (Inl (e, p)) = p"
  by (simp_all add: reached_def)

lemma store_commit_fields:
  "committed (store_commit H t v s) = committed s @ [\<lparr>type = t, payload = v\<rparr>]"
  "state (store_commit H ''vweReplaceState'' v s) = v"
  by (simp_all add: store_commit_def)

lemma committed_store_commit:
  "committed (store_commit H (type r) (payload r) s) = committed s @ [r]"
  by (simp add: store_commit_def)






lemma cs_hookAction_absent:
  assumes "\<not> listed (ignoredActions cfg) (type a)" and "initialized p"
    and "findIndex (sameTypeAndPayload H a) (receivedActions p) = None"
  shows "cs_hookAction H cfg a p = cs_sendAction a p"
  using assms by (simp add: cs_hookAction_def)

lemma cs_hookAction_store: "store (reached (cs_hookAction H cfg a p)) = store p"
  by (simp add: cs_hookAction_def cs_sendAction_def postMessage_def reached_def
      split: option.split)

lemma cs_hookMutation_frame:
  assumes "initialized p"
  shows "initialized (reached (cs_hookMutation H cfg m p)) \<and>
         pendingMutations (reached (cs_hookMutation H cfg m p)) = pendingMutations p \<and>
         pendingActions (reached (cs_hookMutation H cfg m p)) = pendingActions p \<and>
         store (reached (cs_hookMutation H cfg m p)) = store p \<and>
         broken (connection (reached (cs_hookMutation H cfg m p))) = broken (connection p)"
  using assms
  by (simp add: cs_hookMutation_def cs_sendMutation_def postMessage_def split: option.split)

lemma cs_hookMutation_working:
  assumes "\<not> broken (connection p)"
  shows "\<exists>q. cs_hookMutation H cfg m p = Inr q"
  using assms
  by (simp add: cs_hookMutation_def cs_sendMutation_def postMessage_def split: option.split)

lemma cs_commit_frame:
  assumes "initialized p"
  shows "initialized (reached (cs_commit H cfg t v p)) \<and>
         pendingMutations (reached (cs_commit H cfg t v p)) = pendingMutations p \<and>
         pendingActions (reached (cs_commit H cfg t v p)) = pendingActions p \<and>
         store (reached (cs_commit H cfg t v p)) = store_commit H t v (store p) \<and>
         broken (connection (reached (cs_commit H cfg t v p))) = broken (connection p)"
  using cs_hookMutation_frame [of "p\<lparr>store := store_commit H t v (store p)\<rparr>" H cfg "\<lparr>type = t, payload = v\<rparr>"] assms
  by (simp add: cs_commit_def)

lemma cs_commit_working:
  assumes "\<not> broken (connection p)"
  shows "\<exists>q. cs_commit H cfg t v p = Inr q"
  using cs_hookMutation_working [of "p\<lparr>store := store_commit H t v (store p)\<rparr>" H cfg "\<lparr>type = t, payload = v\<rparr>"] assms
  by (simp add: cs_commit_def)

lemma cs_commit_own:
  assumes "initialized p" and "\<not> broken (connection p)" and "receivedMutations p = []"
  shows "cs_commit H cfg t v p =
           Inr (if t = ''vweReplaceState'' \<or> listed (ignoredMutations cfg) t
                then p\<lparr>store := store_commit H t v (store p)\<rparr>
                else p\<lparr>store := store_commit H t v (store p),
                       connection := (connection p)
                         \<lparr>posted := posted (connection p) @ [SyncMutation \<lparr>type = t, payload = v\<rparr>]\<rparr>\<rparr>)"
  using assms
  by (simp add: cs_commit_def cs_hookMutation_def cs_sendMutation_def postMessage_def)

section \<open>Facts about the draining loop\<close>

lemma processPendingMutations_Nil:
  "pendingMutations p = [] \<Longrightarrow> processPendingMutations H cfg p = Some (Inr p)"
  by (subst processPendingMutations.simps) simp

lemma processPendingMutations_Cons:
  "pendingMutations p = m # rest \<Longrightarrow>
     processPendingMutations H cfg p =
       (case cs_commit H cfg (type m) (payload m) (p\<lparr>pendingMutations := rest\<rparr>) of
          Inl e \<Rightarrow> Some (Inl e)
        | Inr p' \<Rightarrow> processPendingMutations H cfg p')"
  by (subst processPendingMutations.simps) simp

lemma cs_onMessage_SyncState:
  "cs_onMessage H cfg (SyncState d) p =
     processPendingMutations H cfg
       (p\<lparr>store := store_commit H ''vweReplaceState'' d (store p), initialized := True\<rparr>)"
  by (simp add: cs_onMessage_def cs_commit_def cs_hookMutation_def)

lemma drain_returns:
  assumes "initialized p"
  shows "\<exists>out. processPendingMutations H cfg p = Some out \<and> initialized (reached out) \<and>
               pendingActions (reached out) = pendingActions p"
  using assms
proof (induction "pendingMutations p" arbitrary: p)
  case Nil
  then show ?case by (simp add: processPendingMutations_Nil)
next
  case (Cons m rest)
  let ?p0 = "p\<lparr>pendingMutations := rest\<rparr>"
  from Cons.prems have init0: "initialized ?p0" by simp
  note fr = cs_commit_frame [OF init0, of H cfg "type m" "payload m"]
  from Cons.hyps(2) have "pendingMutations p = m # rest" by simp
  then have unfold: "processPendingMutations H cfg p =
       (case cs_commit H cfg (type m) (payload m) ?p0 of
          Inl e \<Rightarrow> Some (Inl e)
        | Inr p' \<Rightarrow> processPendingMutations H cfg p')"
    by (rule processPendingMutations_Cons)
  show ?case
  proof (cases "cs_commit H cfg (type m) (payload m) ?p0")
    case (Inl e)
    obtain er q where e: "e = (er, q)" by (cases e)
    with Inl fr unfold show ?thesis by simp
  next
    case (Inr q)
    with fr have q: "rest = pendingMutations q" "initialized q" "pendingActions q = pendingActions p"
      by simp_all
    from Cons.hyps(1) [OF q(1) q(2)] q(3) Inr unfold show ?thesis by simp
  qed
qed

lemma drain_working:
  assumes "initialized p" and "\<not> broken (connection p)"
  shows "\<exists>q. processPendingMutations H cfg p = Some (Inr q) \<and> pendingMutations q = [] \<and>
             store q = foldl (\<lambda>s m. store_commit H (type m) (payload m) s) (store p) (pendingMutations p)"
  using assms
proof (induction "pendingMutations p" arbitrary: p)
  case Nil
  then show ?case by (simp add: processPendingMutations_Nil)
next
  case (Cons m rest)
  let ?p0 = "p\<lparr>pendingMutations := rest\<rparr>"
  from Cons.prems have init0: "initialized ?p0" and work0: "\<not> broken (connection ?p0)" by simp_all
  note fr = cs_commit_frame [OF init0, of H cfg "type m" "payload m"]
  from cs_commit_working [OF work0] obtain q where
    q: "cs_commit H cfg (type m) (payload m) ?p0 = Inr q" by blast
  with fr Cons.prems have q': "rest = pendingMutations q" "initialized q" "\<not> broken (connection q)"
    "store q = store_commit H (type m) (payload m) (store p)"
    by simp_all
  from Cons.hyps(2) have "pendingMutations p = m # rest" by simp
  from processPendingMutations_Cons [OF this, of H cfg] q
  have "processPendingMutations H cfg p = processPendingMutations H cfg q"
    by simp
  with Cons.hyps(1) [OF q'(1) q'(2) q'(3)] q'(1,4) Cons.hyps(2) [symmetric] show ?case
    by simp
qed

lemma drain_sends:
  assumes "initialized p" and "\<not> broken (connection p)" and "receivedMutations p = []"
  shows "\<exists>q. processPendingMutations H cfg p = Some (Inr q) \<and> receivedMutations q = [] \<and>
             posted (connection q) =
               posted (connection p) @
               map SyncMutation
                 (filter (\<lambda>m. type m \<noteq> ''vweReplaceState'' \<and> \<not> listed (ignoredMutations cfg) (type m))
                    (pendingMutations p))"
  using assms
proof (induction "pendingMutations p" arbitrary: p)
  case Nil
  then show ?case by (simp add: processPendingMutations_Nil)
next
  case (Cons m rest)
  let ?p0 = "p\<lparr>pendingMutations := rest\<rparr>"
  from Cons.prems have p0: "initialized ?p0" "\<not> broken (connection ?p0)" "receivedMutations ?p0 = []"
    by simp_all
  define q where "q = (if type m = ''vweReplaceState'' \<or> listed (ignoredMutations cfg) (type m)
                then ?p0\<lparr>store := store_commit H (type m) (payload m) (store ?p0)\<rparr>
                else ?p0\<lparr>store := store_commit H (type m) (payload m) (store ?p0),
                       connection := (connection ?p0)
                         \<lparr>posted := posted (connection ?p0) @
                            [SyncMutation \<lparr>type = type m, payload = payload m\<rparr>]\<rparr>\<rparr>)"
  from cs_commit_own [OF p0, of H cfg "type m" "payload m"]
  have step: "cs_commit H cfg (type m) (payload m) ?p0 = Inr q"
    by (simp add: q_def)
  have q': "rest = pendingMutations q" "initialized q" "\<not> broken (connection q)"
    "receivedMutations q = []"
    using Cons.prems by (simp_all add: q_def)
  have sent: "posted (connection q) =
      posted (connection p) @
      map SyncMutation
        (filter (\<lambda>m. type m \<noteq> ''vweReplaceState'' \<and> \<not> listed (ignoredMutations cfg) (type m)) [m])"
    by (simp add: q_def change_eta)
  from Cons.hyps(2) have "pendingMutations p = m # rest" by simp
  from processPendingMutations_Cons [OF this, of H cfg] step
  have "processPendingMutations H cfg p = processPendingMutations H cfg q"
    by simp
  with Cons.hyps(1) [OF q'] sent q'(1) Cons.hyps(2) [symmetric] show ?case
    by auto
qed

lemma committed_replay:
  "committed (foldl (\<lambda>s m. store_commit H (type m) (payload m) s) s ms) = committed s @ ms"
  by (induction ms arbitrary: s) (simp_all add: committed_store_commit)

lemma state_replay:
  "state (foldl (\<lambda>s m. store_commit H (type m) (payload m) s) s ms) =
     foldl (\<lambda>st m. if type m = ''vweReplaceState'' then payload m
                    else mutate H (type m) (payload m) st) (state s) ms"
  by (induction ms arbitrary: s) (simp_all add: store_commit_def)

text \<open>
  The handler of \<open>@@STORE_SYNC_STATE\<close> ends on every peer, leaves it initialised and
  keeps \<open>pendingActions\<close>; on a port that does not throw it returns with the queue of
  pending mutations empty, the store having seen the commit of \<open>vweReplaceState\<close> and then
  one commit per queued mutation, in queue order.
\<close>

lemma cs_onMessage_SyncState_outcome:
  "\<exists>out. cs_onMessage H cfg (SyncState d) p = Some out \<and>
          initialized (reached out) \<and>
          pendingActions (reached out) = pendingActions p \<and>
          (\<not> broken (connection p) \<longrightarrow>
             (\<exists>q. out = Inr q \<and> pendingMutations q = [] \<and>
                  store q = foldl (\<lambda>s m. store_commit H (type m) (payload m) s)
                              (store_commit H ''vweReplaceState'' d (store p)) (pendingMutations p) \<and>
                  committed (store q) =
                    committed (store p) @ \<lparr>type = ''vweReplaceState'', payload = d\<rparr> # pendingMutations p \<and>
                  state (store q) =
                    foldl (\<lambda>st m. if type m = ''vweReplaceState'' then payload m
                                   else mutate H (type m) (payload m) st) d (pendingMutations p)))"
proof -
  let ?p1 = "p\<lparr>store := store_commit H ''vweReplaceState'' d (store p), initialized := True\<rparr>"
  have init: "initialized ?p1" by simp
  from drain_returns [OF init, of H cfg] obtain out where
    out: "processPendingMutations H cfg ?p1 = Some out" "initialized (reached out)"
      "pendingActions (reached out) = pendingActions p"
    by auto
  have "\<exists>q. out = Inr q \<and> pendingMutations q = [] \<and>
                  store q = foldl (\<lambda>s m. store_commit H (type m) (payload m) s)
                              (store_commit H ''vweReplaceState'' d (store p)) (pendingMutations p) \<and>
                  committed (store q) =
                    committed (store p) @ \<lparr>type = ''vweReplaceState'', payload = d\<rparr> # pendingMutations p \<and>
                  state (store q) =
                    foldl (\<lambda>st m. if type m = ''vweReplaceState'' then payload m
                                   else mutate H (type m) (payload m) st) d (pendingMutations p)"
    if "\<not> broken (connection p)"
  proof -
    from that have work: "\<not> broken (connection ?p1)" by simp
    from drain_working [OF init work, of H cfg] out(1) obtain q where
      q: "out = Inr q" "pendingMutations q = []"
        "store q = foldl (\<lambda>s m. store_commit H (type m) (payload m) s)
                     (store_commit H ''vweReplaceState'' d (store p)) (pendingMutations p)"
      by auto
    have c: "committed (store q) =
               committed (store p) @ \<lparr>type = ''vweReplaceState'', payload = d\<rparr> # pendingMutations p"
      by (simp add: q(3) committed_replay store_commit_fields)
    have s: "state (store q) =
               foldl (\<lambda>st m. if type m = ''vweReplaceState'' then payload m
                              else mutate H (type m) (payload m) st) d (pendingMutations p)"
      by (simp add: q(3) state_replay store_commit_fields)
    from q c s show ?thesis by blast
  qed
  with out show ?thesis
    by (auto simp: cs_onMessage_SyncState)
qed

section \<open>Facts about the background script\<close>

lemma relay_foreign:
  assumes "\<not> protocolName (name (port c))"
  shows "relayMutation H m c = c" and "relayAction a c = c"
  using assms by (simp_all add: relayMutation_def relayAction_def)


lemma relayMutation_absent:
  assumes "protocolName (name (port c))"
    and "\<forall>x\<in>set (receivedMutations c). \<not> sameTypeAndPayload H m x"
  shows "relayMutation H m c = bg_sendMutation c m"
proof -
  from assms(2)
  have "scanBack (sameTypeAndPayload H m) (receivedMutations c) (length (receivedMutations c)) = None"
    by (simp add: scanBack_None)
  with assms(1) show ?thesis by (simp add: relayMutation_def)
qed



lemma relayAction_absent:
  assumes "protocolName (name (port c))"
    and "\<forall>x\<in>set (receivedActions c). \<not> sameType a x"
  shows "relayAction a c = bg_sendAction c a"
proof -
  from assms(2)
  have "scanBack (sameType a) (receivedActions c) (length (receivedActions c)) = None"
    by (simp add: scanBack_None)
  with assms(1) show ?thesis by (simp add: relayAction_def)
qed

lemma relayMutation_echo:
  assumes "protocolName (name (port c))"
  shows "relayMutation H r (c\<lparr>receivedMutations := receivedMutations c @ [r]\<rparr>) = c"
  using assms by (simp add: relayMutation_def sameTypeAndPayload_refl splice1_last)

lemma bg_hookAction_store: "bg_store (bg_hookAction cfg a h) = bg_store h"
  by (simp add: bg_hookAction_def)

lemma bg_sendMutation_working:
  "\<not> broken (port c) \<Longrightarrow>
     bg_sendMutation c m = c\<lparr>port := (port c)\<lparr>posted := posted (port c) @ [SyncMutation m]\<rparr>\<rparr>"
  by (simp add: bg_sendMutation_def postMessage_def)

lemma bg_onMessage_store:
  "bg_store (bg_onMessage H cfg i (SyncMutation r) h) = store_commit H (type r) (payload r) (bg_store h)"
  by (simp add: bg_onMessage_def bg_commit_def bg_hookMutation_def pushReceivedMutation_def Let_def)

lemma bg_round:
  assumes "i < length (connections h)" and "\<not> listed (ignoredMutations cfg) (type r)"
    and "protocolName (name (port (connections h ! i)))"
  shows "connections (bg_onMessage H cfg i (SyncMutation r) h) =
           (map (relayMutation H r) (connections h))[i := connections h ! i]"
  using assms
  by (simp add: bg_onMessage_def bg_commit_def pushReceivedMutation_def bg_hookMutation_def
      Let_def map_update relayMutation_echo change_eta)

lemma bg_round_other:
  assumes "i < length (connections h)" and "\<not> listed (ignoredMutations cfg) (type r)"
    and "protocolName (name (port (connections h ! i)))"
    and "j < length (connections h)" and "j \<noteq> i"
  shows "connections (bg_onMessage H cfg i (SyncMutation r) h) ! j = relayMutation H r (connections h ! j)"
  using assms by (simp add: bg_round)

lemma bg_round_origin:
  assumes "i < length (connections h)" and "\<not> listed (ignoredMutations cfg) (type r)"
    and "protocolName (name (port (connections h ! i)))"
  shows "connections (bg_onMessage H cfg i (SyncMutation r) h) ! i = connections h ! i"
  using assms by (simp add: bg_round)

section \<open>The claims\<close>

subsection \<open>C1\<close>

text \<open>
  C1, as the content script has it. A mutation hooked before initialisation, neither
  reserved nor ignored, is appended to \<open>pendingMutations\<close> and nothing is posted. When
  \<open>@@STORE_SYNC_STATE\<close> then arrives (the port works, and \<open>receivedMutations\<close> is empty,
  as it is on every peer that is not yet initialised), the queued mutations are committed
  in queue order by ordinary commits, and the hook that each commit calls, now on an
  initialised peer with no received mutation to match, posts the mutation to the hub: the
  queued mutations that are neither reserved nor ignored go on the wire, in queue order.
\<close>

theorem pending_mutation_queued_then_replayed_and_sent:
  assumes "\<not> initialized p" and "receivedMutations p = []" and "\<not> broken (connection p)"
    and "type m \<noteq> ''vweReplaceState''" and "\<not> listed (ignoredMutations cfg) (type m)"
  shows "cs_hookMutation H cfg m p = Inr (p\<lparr>pendingMutations := pendingMutations p @ [m]\<rparr>) \<and>
         (\<exists>q. cs_onMessage H cfg (SyncState d) (p\<lparr>pendingMutations := pendingMutations p @ [m]\<rparr>) =
                 Some (Inr q) \<and>
               initialized q \<and> pendingMutations q = [] \<and>
               committed (store q) =
                 committed (store p) @
                 \<lparr>type = ''vweReplaceState'', payload = d\<rparr> # pendingMutations p @ [m] \<and>
               posted (connection q) =
                 posted (connection p) @
                 map SyncMutation
                   (filter (\<lambda>m. type m \<noteq> ''vweReplaceState'' \<and>
                                 \<not> listed (ignoredMutations cfg) (type m)) (pendingMutations p)) @
                 [SyncMutation m])"
proof
  from assms show "cs_hookMutation H cfg m p = Inr (p\<lparr>pendingMutations := pendingMutations p @ [m]\<rparr>)"
    by (simp add: cs_hookMutation_def)
next
  let ?p0 = "p\<lparr>pendingMutations := pendingMutations p @ [m]\<rparr>"
  let ?p1 = "?p0\<lparr>store := store_commit H ''vweReplaceState'' d (store ?p0), initialized := True\<rparr>"
  from assms have p1: "initialized ?p1" "\<not> broken (connection ?p1)" "receivedMutations ?p1 = []"
    by simp_all
  from drain_sends [OF p1, of H cfg] obtain q where
    q: "processPendingMutations H cfg ?p1 = Some (Inr q)"
      "posted (connection q) =
         posted (connection ?p1) @
         map SyncMutation
           (filter (\<lambda>m. type m \<noteq> ''vweReplaceState'' \<and> \<not> listed (ignoredMutations cfg) (type m))
              (pendingMutations ?p1))"
    by blast
  from drain_working [OF p1(1,2), of H cfg] q(1) have
    w: "pendingMutations q = []"
      "store q = foldl (\<lambda>s m. store_commit H (type m) (payload m) s) (store ?p1) (pendingMutations ?p1)"
    by auto
  from drain_returns [OF p1(1), of H cfg] q(1) have i: "initialized q"
    by auto
  have c: "committed (store q) =
             committed (store p) @ \<lparr>type = ''vweReplaceState'', payload = d\<rparr> # pendingMutations p @ [m]"
    by (simp add: w(2) committed_replay store_commit_fields)
  from q(2) assms(4,5) have s: "posted (connection q) =
                 posted (connection p) @
                 map SyncMutation
                   (filter (\<lambda>m. type m \<noteq> ''vweReplaceState'' \<and>
                                 \<not> listed (ignoredMutations cfg) (type m)) (pendingMutations p)) @
                 [SyncMutation m]"
    by simp
  from q(1) i w(1) c s
  show "\<exists>q. cs_onMessage H cfg (SyncState d) ?p0 = Some (Inr q) \<and>
               initialized q \<and> pendingMutations q = [] \<and>
               committed (store q) =
                 committed (store p) @
                 \<lparr>type = ''vweReplaceState'', payload = d\<rparr> # pendingMutations p @ [m] \<and>
               posted (connection q) =
                 posted (connection p) @
                 map SyncMutation
                   (filter (\<lambda>m. type m \<noteq> ''vweReplaceState'' \<and>
                                 \<not> listed (ignoredMutations cfg) (type m)) (pendingMutations p)) @
                 [SyncMutation m]"
    by (simp add: cs_onMessage_SyncState)
qed

theorem pending_mutation_queued_then_replayed_and_sent_witness:
  "\<not> initialized freshPeer \<and> receivedMutations freshPeer = [] \<and> \<not> broken (connection freshPeer) \<and>
   type \<lparr>type = ''inc'', payload = JNull\<rparr> \<noteq> ''vweReplaceState'' \<and>
   \<not> listed (ignoredMutations plainSettings) (type \<lparr>type = ''inc'', payload = JNull\<rparr>) \<and>
   cs_hookMutation counterHost plainSettings \<lparr>type = ''inc'', payload = JNull\<rparr> freshPeer =
     Inr (freshPeer\<lparr>pendingMutations := [\<lparr>type = ''inc'', payload = JNull\<rparr>]\<rparr>) \<and>
   map_option (\<lambda>out. posted (connection (reached out)))
     (cs_onMessage counterHost plainSettings (SyncState (JObj [(''counter'', JNum 5)]))
        (freshPeer\<lparr>pendingMutations := [\<lparr>type = ''inc'', payload = JNull\<rparr>]\<rparr>)) =
     Some [SyncMutation \<lparr>type = ''inc'', payload = JNull\<rparr>]"
  using pending_mutation_queued_then_replayed_and_sent
    [of freshPeer "\<lparr>type = ''inc'', payload = JNull\<rparr>" plainSettings counterHost
      "JObj [(''counter'', JNum 5)]"]
  by (simp add: cs_onMessage_SyncState processPendingMutations.simps freshPeer_def
      plainSettings_def counterHost_def cs_commit_def cs_hookMutation_def cs_sendMutation_def
      postMessage_def store_commit_def counterMutate_def listed_def)

text \<open>
  C1 as the claim has it fails: the peer commits \<open>inc\<close> before it is initialised, and the
  mutation is queued with nothing posted; then \<open>@@STORE_SYNC_STATE\<close> arrives, the queued
  mutation is committed, and the hook of that commit posts it to the hub.
\<close>

theorem pending_mutation_reaches_the_wire_counterexample:
  "cs_commit counterHost plainSettings ''inc'' JNull freshPeer =
     Inr (freshPeer
       \<lparr>pendingMutations := [\<lparr>type = ''inc'', payload = JNull\<rparr>],
        store := \<lparr>state = JObj [(''counter'', JNum 1)],
                  committed = [\<lparr>type = ''inc'', payload = JNull\<rparr>], dispatched = []\<rparr>\<rparr>) \<and>
   cs_onMessage counterHost plainSettings (SyncState (JObj [(''counter'', JNum 5)]))
     (freshPeer
       \<lparr>pendingMutations := [\<lparr>type = ''inc'', payload = JNull\<rparr>],
        store := \<lparr>state = JObj [(''counter'', JNum 1)],
                  committed = [\<lparr>type = ''inc'', payload = JNull\<rparr>], dispatched = []\<rparr>\<rparr>) =
     Some (Inr (freshPeer
       \<lparr>initialized := True,
        connection := (connection freshPeer)
          \<lparr>posted := [SyncMutation \<lparr>type = ''inc'', payload = JNull\<rparr>]\<rparr>,
        store := \<lparr>state = JObj [(''counter'', JNum 6)],
                  committed = [\<lparr>type = ''inc'', payload = JNull\<rparr>,
                               \<lparr>type = ''vweReplaceState'', payload = JObj [(''counter'', JNum 5)]\<rparr>,
                               \<lparr>type = ''inc'', payload = JNull\<rparr>],
                  dispatched = []\<rparr>\<rparr>))"
  by (simp add: cs_onMessage_SyncState processPendingMutations.simps freshPeer_def
      plainSettings_def counterHost_def cs_commit_def cs_hookMutation_def cs_sendMutation_def
      postMessage_def store_commit_def counterMutate_def listed_def)

subsection \<open>C2\<close>

text \<open>
  C2, as the background script has it. The hub receives \<open>@@STORE_SYNC_MUTATION\<close> from
  the registered connection at index \<open>i\<close>, whose name passes the protocol test, and the
  type is not on \<open>ignoredMutations\<close>. The record is appended to that connection's
  \<open>receivedMutations\<close> and committed; the relay pass of that commit finds and removes the
  appended entry, so the connection is as before and nothing is posted on it; every other
  connection with a protocol name and no matching record of its own is handed the
  mutation once through \<open>sendMutation\<close>, which posts one envelope unless the port throws.
\<close>

theorem hub_round_no_echo:
  assumes "i < length (connections h)"
    and "\<not> listed (ignoredMutations cfg) (type r)"
    and "protocolName (name (port (connections h ! i)))"
  shows "committed (bg_store (bg_onMessage H cfg i (SyncMutation r) h)) = committed (bg_store h) @ [r] \<and>
         receivedMutations (connections (pushReceivedMutation i r h) ! i) =
           receivedMutations (connections h ! i) @ [r] \<and>
         relayMutation H r (connections (pushReceivedMutation i r h) ! i) = connections h ! i \<and>
         connections (bg_onMessage H cfg i (SyncMutation r) h) ! i = connections h ! i \<and>
         length (connections (bg_onMessage H cfg i (SyncMutation r) h)) = length (connections h) \<and>
         (\<forall>j<length (connections h).
            j \<noteq> i \<and> protocolName (name (port (connections h ! j))) \<and>
            (\<forall>x\<in>set (receivedMutations (connections h ! j)). \<not> sameTypeAndPayload H r x) \<longrightarrow>
            connections (bg_onMessage H cfg i (SyncMutation r) h) ! j =
              bg_sendMutation (connections h ! j) r \<and>
            (\<not> broken (port (connections h ! j)) \<longrightarrow>
               connections (bg_onMessage H cfg i (SyncMutation r) h) ! j =
                 (connections h ! j)\<lparr>port := (port (connections h ! j))
                    \<lparr>posted := posted (port (connections h ! j)) @ [SyncMutation r]\<rparr>\<rparr>))"
proof (intro conjI allI impI)
  show "committed (bg_store (bg_onMessage H cfg i (SyncMutation r) h)) = committed (bg_store h) @ [r]"
    by (simp add: bg_onMessage_store committed_store_commit)
  from assms(1) show "receivedMutations (connections (pushReceivedMutation i r h) ! i) =
           receivedMutations (connections h ! i) @ [r]"
    by (simp add: pushReceivedMutation_def)
  from assms(1,3) show "relayMutation H r (connections (pushReceivedMutation i r h) ! i) = connections h ! i"
    by (simp add: pushReceivedMutation_def relayMutation_echo)
  from assms show "connections (bg_onMessage H cfg i (SyncMutation r) h) ! i = connections h ! i"
    by (rule bg_round_origin)
  from assms show "length (connections (bg_onMessage H cfg i (SyncMutation r) h)) = length (connections h)"
    by (simp add: bg_round)
next
  fix j
  assume j: "j < length (connections h)"
    and o: "j \<noteq> i \<and> protocolName (name (port (connections h ! j))) \<and>
            (\<forall>x\<in>set (receivedMutations (connections h ! j)). \<not> sameTypeAndPayload H r x)"
  from o have "relayMutation H r (connections h ! j) = bg_sendMutation (connections h ! j) r"
    by (simp add: relayMutation_absent)
  with bg_round_other [OF assms j] o
  show sent: "connections (bg_onMessage H cfg i (SyncMutation r) h) ! j =
              bg_sendMutation (connections h ! j) r"
    by simp
  assume "\<not> broken (port (connections h ! j))"
  with sent show "connections (bg_onMessage H cfg i (SyncMutation r) h) ! j =
                 (connections h ! j)\<lparr>port := (port (connections h ! j))
                    \<lparr>posted := posted (port (connections h ! j)) @ [SyncMutation r]\<rparr>\<rparr>"
    by (simp add: bg_sendMutation_working)
qed

theorem hub_round_no_echo_witness:
  "(0::nat) < length (connections twoPeerHub) \<and>
   \<not> listed (ignoredMutations plainSettings) (type \<lparr>type = ''inc'', payload = JNull\<rparr>) \<and>
   protocolName (name (port (connections twoPeerHub ! 0))) \<and>
   protocolName (name (port (connections twoPeerHub ! 1))) \<and>
   \<not> broken (port (connections twoPeerHub ! 1)) \<and>
   connections (bg_onMessage counterHost plainSettings 0
                  (SyncMutation \<lparr>type = ''inc'', payload = JNull\<rparr>) twoPeerHub) =
     [emptyConn ''vuex-webextensions_aaaaaaaaa'',
      (emptyConn ''vuex-webextensions_bbbbbbbbb'')
        \<lparr>port := \<lparr>name = Some ''vuex-webextensions_bbbbbbbbb'',
                  posted = [SyncMutation \<lparr>type = ''inc'', payload = JNull\<rparr>], broken = False\<rparr>\<rparr>]"
  using hub_round_no_echo
    [of 0 twoPeerHub plainSettings "\<lparr>type = ''inc'', payload = JNull\<rparr>" counterHost]
  by (simp add: listed_def plainSettings_def twoPeerHub_def emptyConn_def counterHost_def
      protocolName_def sublist_Cons_right bg_onMessage_def bg_commit_def bg_hookMutation_def
      pushReceivedMutation_def relayMutation_def bg_sendMutation_def postMessage_def
      sameTypeAndPayload_def splice1_def Let_def)

text \<open>
  C2 as the claim has it fails for an ignored type: the hub, with \<open>x\<close> on
  \<open>ignoredMutations\<close>, receives a mutation of type \<open>x\<close> from the first of two peers. The
  record is appended and committed, the subscriber returns before the relay, so the entry
  stays in the list of the first peer and the second peer is sent nothing.
\<close>

theorem hub_round_ignored_type_counterexample:
  "connections (bg_onMessage counterHost (plainSettings\<lparr>ignoredMutations := [''x'']\<rparr>) 0
                  (SyncMutation \<lparr>type = ''x'', payload = JNum 1\<rparr>) twoPeerHub) =
     [(emptyConn ''vuex-webextensions_aaaaaaaaa'')
        \<lparr>receivedMutations := [\<lparr>type = ''x'', payload = JNum 1\<rparr>]\<rparr>,
      emptyConn ''vuex-webextensions_bbbbbbbbb''] \<and>
   committed (bg_store (bg_onMessage counterHost (plainSettings\<lparr>ignoredMutations := [''x'']\<rparr>) 0
                  (SyncMutation \<lparr>type = ''x'', payload = JNum 1\<rparr>) twoPeerHub)) =
     [\<lparr>type = ''x'', payload = JNum 1\<rparr>]"
  by (simp add: listed_def plainSettings_def twoPeerHub_def emptyConn_def counterHost_def
      bg_onMessage_def bg_commit_def bg_hookMutation_def pushReceivedMutation_def
      store_commit_def counterMutate_def)

subsection \<open>C3\<close>

text \<open>
  C3 at the content script. The hub's relay compares a received action with the hooked
  one by type alone, as the claim says of the peer; the peer's \<open>hookAction\<close> compares
  the serialised payloads as well. A peer that holds a received action of type \<open>x\<close> with
  payload 1 and hooks an action of type \<open>x\<close> with payload 2 keeps the entry and posts the
  action, where the hub's scan of the same list removes the entry and posts nothing. And
  since the handler calls \<open>dispatch\<close> with the record object, the action that a store with
  object-style dispatch hands to the subscriber carries the whole record as its payload:
  the received action \<open>load\<close> is not recognised, it is posted back to the hub and its
  record stays in \<open>receivedActions\<close>.
\<close>

theorem peer_action_echo_compares_payload:
  "cs_hookAction counterHost plainSettings \<lparr>type = ''x'', payload = JNum 2\<rparr>
     (freshPeer\<lparr>initialized := True, receivedActions := [\<lparr>type = ''x'', payload = JNum 1\<rparr>]\<rparr>) =
     Inr (freshPeer\<lparr>initialized := True, receivedActions := [\<lparr>type = ''x'', payload = JNum 1\<rparr>],
            connection := (connection freshPeer)
              \<lparr>posted := [SyncAction \<lparr>type = ''x'', payload = JNum 2\<rparr>]\<rparr>\<rparr>) \<and>
   relayAction \<lparr>type = ''x'', payload = JNum 2\<rparr>
     ((emptyConn ''vuex-webextensions_aaaaaaaaa'')
        \<lparr>receivedActions := [\<lparr>type = ''x'', payload = JNum 1\<rparr>]\<rparr>) =
     emptyConn ''vuex-webextensions_aaaaaaaaa'' \<and>
   cs_onMessage counterHost plainSettings (SyncAction \<lparr>type = ''load'', payload = JNum 7\<rparr>)
     (freshPeer\<lparr>initialized := True\<rparr>) =
     Some (Inr (freshPeer
       \<lparr>initialized := True,
        receivedActions := [\<lparr>type = ''load'', payload = JNum 7\<rparr>],
        connection := (connection freshPeer)
          \<lparr>posted := [SyncAction \<lparr>type = ''load'',
                        payload = JObj [(''type'', JStr ''load''), (''payload'', JNum 7)]\<rparr>]\<rparr>,
        store := (store freshPeer)
          \<lparr>dispatched := [DispatchRecord \<lparr>type = ''load'', payload = JNum 7\<rparr>]\<rparr>\<rparr>))"
  by (simp add: listed_def sameType_def cs_hookAction_def plainSettings_def freshPeer_def
      counterHost_def sameTypeAndPayload_def cs_sendAction_def postMessage_def decimal.simps
      relayAction_def emptyConn_def protocolName_def sublist_Cons_right splice1_def
      cs_onMessage_def cs_dispatch_def store_dispatch_def Let_def)

subsection \<open>C4\<close>

text \<open>
  C4, on a port whose \<open>postMessage\<close> throws. The hub's three helpers catch the
  exception and return with nothing posted. At an initialised peer the exception leaves
  \<open>hookMutation\<close> and \<open>hookAction\<close>, and with them the \<open>commit\<close> that called the hook:
  the content script has no handler around \<open>postMessage\<close>.
\<close>

theorem peer_send_failure_propagates:
  "bg_sendMutation ((emptyConn ''vuex-webextensions_aaaaaaaaa'')
       \<lparr>port := \<lparr>name = Some ''vuex-webextensions_aaaaaaaaa'', posted = [], broken = True\<rparr>\<rparr>)
     \<lparr>type = ''inc'', payload = JNull\<rparr> =
     (emptyConn ''vuex-webextensions_aaaaaaaaa'')
       \<lparr>port := \<lparr>name = Some ''vuex-webextensions_aaaaaaaaa'', posted = [], broken = True\<rparr>\<rparr> \<and>
   bg_sendAction ((emptyConn ''vuex-webextensions_aaaaaaaaa'')
       \<lparr>port := \<lparr>name = Some ''vuex-webextensions_aaaaaaaaa'', posted = [], broken = True\<rparr>\<rparr>)
     \<lparr>type = ''load'', payload = JNull\<rparr> =
     (emptyConn ''vuex-webextensions_aaaaaaaaa'')
       \<lparr>port := \<lparr>name = Some ''vuex-webextensions_aaaaaaaaa'', posted = [], broken = True\<rparr>\<rparr> \<and>
   bg_syncCurrentState (bg_store twoPeerHub) ((emptyConn ''vuex-webextensions_aaaaaaaaa'')
       \<lparr>port := \<lparr>name = Some ''vuex-webextensions_aaaaaaaaa'', posted = [], broken = True\<rparr>\<rparr>) =
     (emptyConn ''vuex-webextensions_aaaaaaaaa'')
       \<lparr>port := \<lparr>name = Some ''vuex-webextensions_aaaaaaaaa'', posted = [], broken = True\<rparr>\<rparr> \<and>
   cs_hookMutation counterHost plainSettings \<lparr>type = ''inc'', payload = JNull\<rparr>
     (freshPeer\<lparr>initialized := True, connection := (connection freshPeer)\<lparr>broken := True\<rparr>\<rparr>) =
     Inl (PostMessageError,
          freshPeer\<lparr>initialized := True, connection := (connection freshPeer)\<lparr>broken := True\<rparr>\<rparr>) \<and>
   cs_hookAction counterHost plainSettings \<lparr>type = ''load'', payload = JNull\<rparr>
     (freshPeer\<lparr>initialized := True, connection := (connection freshPeer)\<lparr>broken := True\<rparr>\<rparr>) =
     Inl (PostMessageError,
          freshPeer\<lparr>initialized := True, connection := (connection freshPeer)\<lparr>broken := True\<rparr>\<rparr>) \<and>
   cs_commit counterHost plainSettings ''inc'' JNull
     (freshPeer\<lparr>initialized := True, connection := (connection freshPeer)\<lparr>broken := True\<rparr>\<rparr>) =
     Inl (PostMessageError,
          freshPeer\<lparr>initialized := True, connection := (connection freshPeer)\<lparr>broken := True\<rparr>,
            store := \<lparr>state = JObj [(''counter'', JNum 1)],
                      committed = [\<lparr>type = ''inc'', payload = JNull\<rparr>], dispatched = []\<rparr>\<rparr>)"
  by (simp add: listed_def plainSettings_def counterHost_def freshPeer_def emptyConn_def
      bg_sendMutation_def bg_sendAction_def bg_syncCurrentState_def cs_hookMutation_def
      cs_hookAction_def cs_commit_def cs_sendMutation_def cs_sendAction_def postMessage_def
      store_commit_def counterMutate_def)

subsection \<open>C5\<close>

text \<open>
  C5, as the background script has it. After the relay pass of a mutation that is not on
  \<open>ignoredMutations\<close>, the hub hands \<open>filterObject(state, persistentStates)\<close> of the state
  after the mutation to \<open>savePersistentStates\<close>, once, whether \<open>persistentStates\<close> is
  empty or not; what is saved does not depend on the registry or on any tracking list.
\<close>

theorem persists_after_every_relayed_mutation:
  "(\<not> listed (ignoredMutations cfg) (type m) \<longrightarrow>
      savedStates (bg_hookMutation H cfg m h) =
        savedStates h @ [filterObject H (state (bg_store h)) (persistentStates cfg)]) \<and>
   (\<not> listed (ignoredMutations cfg) t \<longrightarrow>
      savedStates (bg_commit H cfg t v h) =
        savedStates h @
          [filterObject H (state (store_commit H t v (bg_store h))) (persistentStates cfg)]) \<and>
   savedStates (bg_hookMutation H cfg m (h\<lparr>connections := cs\<rparr>)) =
     savedStates (bg_hookMutation H cfg m h)"
  by (simp add: bg_hookMutation_def bg_commit_def Let_def)

theorem persists_after_every_relayed_mutation_witness:
  "\<not> listed (ignoredMutations (plainSettings\<lparr>persistentStates := [''counter'']\<rparr>))
       (type \<lparr>type = ''inc'', payload = JNull\<rparr>) \<and>
   savedStates (bg_commit counterHost (plainSettings\<lparr>persistentStates := [''counter'']\<rparr>)
                  ''inc'' JNull twoPeerHub) = [JObj [(''counter'', JNum 6)]]"
  using persists_after_every_relayed_mutation
    [of "plainSettings\<lparr>persistentStates := [''counter'']\<rparr>" "\<lparr>type = ''inc'', payload = JNull\<rparr>"
      counterHost twoPeerHub "''inc''" JNull "[]"]
  by (simp add: listed_def plainSettings_def counterHost_def twoPeerHub_def store_commit_def
      counterMutate_def keepKeys_def)

text \<open>
  C5 as the claim has it fails: with \<open>persistentStates\<close> empty, the hub still calls
  \<open>savePersistentStates\<close> after the mutation \<open>inc\<close>, with the object that
  \<open>filterObject\<close> returns for no keys.
\<close>

theorem persists_with_no_persistent_states_counterexample:
  "persistentStates plainSettings = [] \<and>
   \<not> listed (ignoredMutations plainSettings) ''inc'' \<and>
   savedStates twoPeerHub = [] \<and>
   savedStates (bg_commit counterHost plainSettings ''inc'' JNull twoPeerHub) = [JObj []]"
  by (simp add: listed_def plainSettings_def counterHost_def twoPeerHub_def bg_commit_def
      bg_hookMutation_def Let_def store_commit_def counterMutate_def keepKeys_def)

subsection \<open>C6\<close>

text \<open>
  C6, on a port whose \<open>postMessage\<close> throws. Two mutations and one action are queued when
  \<open>@@STORE_SYNC_STATE\<close> arrives. The handler commits \<open>vweReplaceState\<close> with the received
  state, sets \<open>initialized\<close> and starts the drain; the first replayed commit calls
  \<open>hookMutation\<close>, whose \<open>sendMutation\<close> throws, and the exception leaves the loop and the
  handler. The second queued mutation is never committed and stays in \<open>pendingMutations\<close>;
  \<open>pendingActions\<close> is untouched.
\<close>

theorem sync_state_drain_aborts_on_send_failure:
  "cs_onMessage counterHost plainSettings (SyncState (JObj [(''counter'', JNum 5)]))
     (freshPeer
       \<lparr>pendingMutations := [\<lparr>type = ''inc'', payload = JNull\<rparr>, \<lparr>type = ''inc'', payload = JNum 1\<rparr>],
        pendingActions := [\<lparr>type = ''load'', payload = JNull\<rparr>],
        connection := (connection freshPeer)\<lparr>broken := True\<rparr>\<rparr>) =
     Some (Inl (PostMessageError,
       freshPeer
       \<lparr>initialized := True,
        pendingMutations := [\<lparr>type = ''inc'', payload = JNum 1\<rparr>],
        pendingActions := [\<lparr>type = ''load'', payload = JNull\<rparr>],
        connection := (connection freshPeer)\<lparr>broken := True\<rparr>,
        store := \<lparr>state = JObj [(''counter'', JNum 6)],
                  committed = [\<lparr>type = ''vweReplaceState'', payload = JObj [(''counter'', JNum 5)]\<rparr>,
                               \<lparr>type = ''inc'', payload = JNull\<rparr>],
                  dispatched = []\<rparr>\<rparr>))"
  by (simp add: cs_onMessage_SyncState processPendingMutations.simps freshPeer_def
      plainSettings_def counterHost_def cs_commit_def cs_hookMutation_def cs_sendMutation_def
      postMessage_def store_commit_def counterMutate_def listed_def)

subsection \<open>C7\<close>



subsection \<open>C8\<close>




subsection \<open>C9\<close>

text \<open>
  C9. In a relay pass, for mutations and for actions, a connection whose name is not a
  string or does not contain \<open>vuex-webextensions\<close> is left untouched: nothing is posted
  on it and its lists are not scanned. The test reads the name only, so the pass is the
  same whatever \<open>connectionName\<close> the settings hold; and a peer whose \<open>connectionName\<close>
  lacks the marker connects under a name that fails the test, so that a hub whose
  connections all fail it relays to none of them.
\<close>

theorem relay_skips_foreign_names:
  "(\<not> protocolName (name (port c)) \<longrightarrow> relayMutation H m c = c \<and> relayAction a c = c) \<and>
   (j < length (connections h) \<and> \<not> protocolName (name (port (connections h ! j))) \<longrightarrow>
      connections (bg_hookMutation H cfg m h) ! j = connections h ! j \<and>
      connections (bg_hookAction cfg a h) ! j = connections h ! j) \<and>
   bg_hookMutation H (cfg\<lparr>connectionName := n\<rparr>) m h = bg_hookMutation H cfg m h \<and>
   bg_hookAction (cfg\<lparr>connectionName := n\<rparr>) a h = bg_hookAction cfg a h \<and>
   (\<not> sublist ''vuex-webextensions'' (connectionName cfg') \<and> length scriptId \<le> 9 \<longrightarrow>
      \<not> protocolName (Some (cs_connectionName cfg' scriptId))) \<and>
   ((\<forall>c\<in>set (connections h). \<not> protocolName (name (port c))) \<longrightarrow>
      connections (bg_hookMutation H cfg m h) = connections h \<and>
      connections (bg_hookAction cfg a h) = connections h)"
proof (intro conjI impI)
  assume all: "\<forall>c\<in>set (connections h). \<not> protocolName (name (port c))"
  then have "map (relayMutation H m) (connections h) = connections h"
    by (simp add: map_idI relay_foreign)
  then show "connections (bg_hookMutation H cfg m h) = connections h"
    by (simp add: bg_hookMutation_def Let_def)
  from all have "map (relayAction a) (connections h) = connections h"
    by (simp add: map_idI relay_foreign)
  then show "connections (bg_hookAction cfg a h) = connections h"
    by (simp add: bg_hookAction_def)
next
  assume "\<not> protocolName (name (port c))"
  then show "relayMutation H m c = c" and "relayAction a c = c"
    by (simp_all add: relay_foreign)
next
  assume h: "j < length (connections h) \<and> \<not> protocolName (name (port (connections h ! j)))"
  then show "connections (bg_hookMutation H cfg m h) ! j = connections h ! j"
    by (simp add: bg_hookMutation_def Let_def relay_foreign)
  from h show "connections (bg_hookAction cfg a h) ! j = connections h ! j"
    by (simp add: bg_hookAction_def relay_foreign)
next
  show "bg_hookMutation H (cfg\<lparr>connectionName := n\<rparr>) m h = bg_hookMutation H cfg m h"
    by (simp add: bg_hookMutation_def)
  show "bg_hookAction (cfg\<lparr>connectionName := n\<rparr>) a h = bg_hookAction cfg a h"
    by (simp add: bg_hookAction_def)
next
  assume h: "\<not> sublist ''vuex-webextensions'' (connectionName cfg') \<and> length scriptId \<le> 9"
  show "\<not> protocolName (Some (cs_connectionName cfg' scriptId))"
  proof
    assume "protocolName (Some (cs_connectionName cfg' scriptId))"
    then have "sublist ''vuex-webextensions'' (connectionName cfg' @ CHR ''_'' # scriptId)"
      by (simp add: protocolName_def cs_connectionName_def)
    with h have
      "sublist ''vuex-webextensions'' (CHR ''_'' # scriptId) \<or>
       (\<exists>xs1 xs2. ''vuex-webextensions'' = xs1 @ xs2 \<and> suffix xs1 (connectionName cfg') \<and>
                  prefix xs2 (CHR ''_'' # scriptId))"
      by (simp add: sublist_append)
    then show False
    proof
      assume "sublist ''vuex-webextensions'' (CHR ''_'' # scriptId)"
      then have "length ''vuex-webextensions'' \<le> length (CHR ''_'' # scriptId)"
        by (rule sublist_length_le)
      with h show False by simp
    next
      assume "\<exists>xs1 xs2. ''vuex-webextensions'' = xs1 @ xs2 \<and> suffix xs1 (connectionName cfg') \<and>
                  prefix xs2 (CHR ''_'' # scriptId)"
      then obtain xs1 xs2 where x: "''vuex-webextensions'' = xs1 @ xs2"
        "suffix xs1 (connectionName cfg')" "prefix xs2 (CHR ''_'' # scriptId)"
        by blast
      show False
      proof (cases xs2)
        case Nil
        with x have "suffix ''vuex-webextensions'' (connectionName cfg')" by simp
        then have "sublist ''vuex-webextensions'' (connectionName cfg')" by simp
        with h show False by simp
      next
        case (Cons y ys)
        with x(3) have "y = CHR ''_''" by simp
        with Cons x(1) have "CHR ''_'' \<in> set ''vuex-webextensions''"
          by (metis in_set_conv_decomp)
        then show False by simp
      qed
    qed
  qed
qed

theorem relay_skips_foreign_names_witness:
  "\<not> protocolName (name (port (emptyConn ''myapp_k3j9x0q2a''))) \<and>
   (0::nat) < length (connections (twoPeerHub\<lparr>connections := [emptyConn ''myapp_k3j9x0q2a'']\<rparr>)) \<and>
   \<not> sublist ''vuex-webextensions'' (connectionName (plainSettings\<lparr>connectionName := ''myapp''\<rparr>)) \<and>
   length ''k3j9x0q2a'' \<le> 9 \<and>
   cs_connectionName (plainSettings\<lparr>connectionName := ''myapp''\<rparr>) ''k3j9x0q2a'' = ''myapp_k3j9x0q2a'' \<and>
   connections (bg_hookMutation counterHost plainSettings \<lparr>type = ''inc'', payload = JNull\<rparr>
                  (twoPeerHub\<lparr>connections := [emptyConn ''myapp_k3j9x0q2a'']\<rparr>))
     = [emptyConn ''myapp_k3j9x0q2a'']"
  using relay_skips_foreign_names
    [of "emptyConn ''myapp_k3j9x0q2a''" counterHost "\<lparr>type = ''inc'', payload = JNull\<rparr>"
      "\<lparr>type = ''inc'', payload = JNull\<rparr>" 0
      "twoPeerHub\<lparr>connections := [emptyConn ''myapp_k3j9x0q2a'']\<rparr>" plainSettings
      "''myapp''" "plainSettings\<lparr>connectionName := ''myapp''\<rparr>" "''k3j9x0q2a''"]
  by (simp add: emptyConn_def twoPeerHub_def plainSettings_def protocolName_def
      cs_connectionName_def sublist_Cons_right)

subsection \<open>C10\<close>

text \<open>
  C10. An initialised peer that receives \<open>@@STORE_SYNC_ACTION\<close> appends the record to
  \<open>receivedActions\<close> and calls \<open>dispatch\<close> on that state with the record object as the
  single argument; the hub's handler calls \<open>dispatch\<close> with the record's type and payload
  as two arguments. The two calls differ in shape.
\<close>

theorem sync_action_dispatch_shapes:
  "(initialized p \<longrightarrow>
      cs_onMessage H cfg (SyncAction r) p =
        Some (cs_dispatch H cfg (DispatchRecord r) (p\<lparr>receivedActions := receivedActions p @ [r]\<rparr>)) \<and>
      dispatched (store (reached (cs_dispatch H cfg (DispatchRecord r)
                                   (p\<lparr>receivedActions := receivedActions p @ [r]\<rparr>)))) =
        dispatched (store p) @ [DispatchRecord r] \<and>
      (\<not> (syncActions cfg \<and> subscribeActionAvailable H) \<longrightarrow>
         cs_dispatch H cfg (DispatchRecord r) (p\<lparr>receivedActions := receivedActions p @ [r]\<rparr>) =
           Inr (p\<lparr>receivedActions := receivedActions p @ [r],
                  store := store_dispatch (DispatchRecord r) (store p)\<rparr>))) \<and>
   bg_onMessage H cfg i (SyncAction r) h =
     bg_dispatch H cfg (DispatchTypePayload (type r) (payload r)) (pushReceivedAction i r h) \<and>
   dispatched (bg_store (bg_onMessage H cfg i (SyncAction r) h)) =
     dispatched (bg_store h) @ [DispatchTypePayload (type r) (payload r)] \<and>
   (i < length (connections h) \<longrightarrow>
      receivedActions (connections (pushReceivedAction i r h) ! i) =
        receivedActions (connections h ! i) @ [r]) \<and>
   DispatchRecord r \<noteq> DispatchTypePayload (type r) (payload r)"
proof (intro conjI impI)
  assume "initialized p"
  then show "cs_onMessage H cfg (SyncAction r) p =
        Some (cs_dispatch H cfg (DispatchRecord r) (p\<lparr>receivedActions := receivedActions p @ [r]\<rparr>))"
    by (simp add: cs_onMessage_def)
next
  show "dispatched (store (reached (cs_dispatch H cfg (DispatchRecord r)
                                   (p\<lparr>receivedActions := receivedActions p @ [r]\<rparr>)))) =
        dispatched (store p) @ [DispatchRecord r]"
    by (simp add: cs_dispatch_def Let_def cs_hookAction_store store_dispatch_def)
next
  assume "\<not> (syncActions cfg \<and> subscribeActionAvailable H)"
  then show "cs_dispatch H cfg (DispatchRecord r) (p\<lparr>receivedActions := receivedActions p @ [r]\<rparr>) =
           Inr (p\<lparr>receivedActions := receivedActions p @ [r],
                  store := store_dispatch (DispatchRecord r) (store p)\<rparr>)"
    by (auto simp: cs_dispatch_def Let_def)
next
  show "bg_onMessage H cfg i (SyncAction r) h =
     bg_dispatch H cfg (DispatchTypePayload (type r) (payload r)) (pushReceivedAction i r h)"
    by (simp add: bg_onMessage_def)
next
  show "dispatched (bg_store (bg_onMessage H cfg i (SyncAction r) h)) =
     dispatched (bg_store h) @ [DispatchTypePayload (type r) (payload r)]"
    by (simp add: bg_onMessage_def bg_dispatch_def Let_def bg_hookAction_store
        pushReceivedAction_def store_dispatch_def)
next
  assume "i < length (connections h)"
  then show "receivedActions (connections (pushReceivedAction i r h) ! i) =
        receivedActions (connections h ! i) @ [r]"
    by (simp add: pushReceivedAction_def)
next
  show "DispatchRecord r \<noteq> DispatchTypePayload (type r) (payload r)"
    by simp
qed

theorem sync_action_dispatch_shapes_witness:
  "initialized (freshPeer\<lparr>initialized := True\<rparr>) \<and>
   \<not> (syncActions (plainSettings\<lparr>syncActions := False\<rparr>) \<and> subscribeActionAvailable counterHost) \<and>
   (0::nat) < length (connections twoPeerHub) \<and>
   cs_onMessage counterHost (plainSettings\<lparr>syncActions := False\<rparr>)
       (SyncAction \<lparr>type = ''load'', payload = JNum 7\<rparr>) (freshPeer\<lparr>initialized := True\<rparr>) =
     Some (Inr (freshPeer\<lparr>initialized := True,
        receivedActions := [\<lparr>type = ''load'', payload = JNum 7\<rparr>],
        store := (store freshPeer)\<lparr>dispatched := [DispatchRecord \<lparr>type = ''load'', payload = JNum 7\<rparr>]\<rparr>\<rparr>)) \<and>
   dispatched (bg_store (bg_onMessage counterHost (plainSettings\<lparr>syncActions := False\<rparr>) 0
       (SyncAction \<lparr>type = ''load'', payload = JNum 7\<rparr>) twoPeerHub)) =
     [DispatchTypePayload ''load'' (JNum 7)]"
  using sync_action_dispatch_shapes
    [of "freshPeer\<lparr>initialized := True\<rparr>" counterHost "plainSettings\<lparr>syncActions := False\<rparr>"
      "\<lparr>type = ''load'', payload = JNum 7\<rparr>" 0 twoPeerHub]
  by (simp add: freshPeer_def plainSettings_def counterHost_def twoPeerHub_def store_dispatch_def
      cs_onMessage_def cs_dispatch_def bg_onMessage_def bg_dispatch_def pushReceivedAction_def
      emptyConn_def Let_def)

end
